theory Spec2Isabelle
  imports Complex_Main
begin

section \<open>JavaScript values\<close>

text \<open>
  A JavaScript number is one of the three special values or a finite value. Finite values
  are modelled by reals: arithmetic on them is exact (no rounding, no overflow) and the
  sign of zero is not tracked. Everything the source does with the special values
  (\<^verbatim>\<open>Number.isFinite\<close>, comparisons with \<^verbatim>\<open>NaN\<close>, \<^verbatim>\<open>x || 1\<close>) is written out.
\<close>

datatype number = NaN | PosInfinity | NegInfinity | Fin real

text \<open>A value that may be \<^verbatim>\<open>null\<close> or \<^verbatim>\<open>undefined\<close>.\<close>

datatype 'a nullable = Null | Undefined | Value 'a

fun isFinite :: "number \<Rightarrow> bool" where
  "isFinite (Fin x) = True"
| "isFinite _ = False"


















subsection \<open>Strings\<close>

text \<open>
  A string is the list of the bytes of its UTF-8 encoding, the encoding of the source
  files; literals outside ASCII are spelled out byte by byte.
\<close>

definition EM_DASH :: string where
  "EM_DASH = [CHR 0xE2, CHR 0x80, CHR 0x94]"

definition o_umlaut :: string where
  "o_umlaut = [CHR 0xC3, CHR 0xB6]"

definition capital_dotted_I :: string where
  "capital_dotted_I = [CHR 0xC4, CHR 0xB0]"

text \<open>
  The characters \<^verbatim>\<open>String.prototype.trim\<close> removes (ECMAScript WhiteSpace and
  LineTerminator), each as its UTF-8 bytes: U+0009 to U+000D, U+0020, U+00A0, U+1680,
  U+2000 to U+200A, U+2028, U+2029, U+202F, U+205F, U+3000 and U+FEFF.
\<close>

definition whitespace :: "string list" where
  "whitespace =
    [[CHR 0x09], [CHR 0x0A], [CHR 0x0B], [CHR 0x0C], [CHR 0x0D], [CHR 0x20],
     [CHR 0xC2, CHR 0xA0],
     [CHR 0xE1, CHR 0x9A, CHR 0x80],
     [CHR 0xE2, CHR 0x80, CHR 0x80], [CHR 0xE2, CHR 0x80, CHR 0x81],
     [CHR 0xE2, CHR 0x80, CHR 0x82], [CHR 0xE2, CHR 0x80, CHR 0x83],
     [CHR 0xE2, CHR 0x80, CHR 0x84], [CHR 0xE2, CHR 0x80, CHR 0x85],
     [CHR 0xE2, CHR 0x80, CHR 0x86], [CHR 0xE2, CHR 0x80, CHR 0x87],
     [CHR 0xE2, CHR 0x80, CHR 0x88], [CHR 0xE2, CHR 0x80, CHR 0x89],
     [CHR 0xE2, CHR 0x80, CHR 0x8A],
     [CHR 0xE2, CHR 0x80, CHR 0xA8], [CHR 0xE2, CHR 0x80, CHR 0xA9],
     [CHR 0xE2, CHR 0x80, CHR 0xAF],
     [CHR 0xE2, CHR 0x81, CHR 0x9F],
     [CHR 0xE3, CHR 0x80, CHR 0x80],
     [CHR 0xEF, CHR 0xBB, CHR 0xBF]]"

text \<open>
  \<open>strip_one ws s\<close> removes one of the sequences \<open>ws\<close> from the front of \<open>s\<close>, if
  \<open>s\<close> starts with one; the sequences of \<open>whitespace\<close> are not empty, so what is left
  is shorter.
\<close>

fun strip_one :: "string list \<Rightarrow> string \<Rightarrow> string option" where
  "strip_one [] s = None"
| "strip_one (w # ws) s =
     (if w \<noteq> [] \<and> take (length w) s = w then Some (drop (length w) s) else strip_one ws s)"

lemma strip_one_shorter: "strip_one ws s = Some r \<Longrightarrow> length r < length s"
proof (induction ws)
  case Nil
  then show ?case by simp
next
  case (Cons w ws)
  show ?case
  proof (cases "w \<noteq> [] \<and> take (length w) s = w")
    case True
    with Cons.prems have r: "r = drop (length w) s" by simp
    from True have "length (take (length w) s) = length w" by simp
    then have "length w \<le> length s" by simp
    moreover from True have "0 < length w" by simp
    moreover from r have "length r = length s - length w" by simp
    ultimately show ?thesis by arith
  next
    case False
    with Cons show ?thesis by simp
  qed
qed

function strip_all :: "string list \<Rightarrow> string \<Rightarrow> string" where
  "strip_all ws s = (case strip_one ws s of None \<Rightarrow> s | Some r \<Rightarrow> strip_all ws r)"
  by pat_completeness auto
termination
  by (relation "measure (\<lambda>(ws, s). length s)") (auto dest: strip_one_shorter)

declare strip_all.simps [simp del]

definition trimStart :: "string \<Rightarrow> string" where
  "trimStart s = strip_all whitespace s"

definition trimEnd :: "string \<Rightarrow> string" where
  "trimEnd s = rev (strip_all (map rev whitespace) (rev s))"

definition trim :: "string \<Rightarrow> string" where
  "trim s = trimEnd (trimStart s)"

text \<open>The decimal digits of a natural number, most significant first.\<close>

function decimal :: "nat \<Rightarrow> string" where
  "decimal n = (if n < 10 then [''0123456789'' ! n]
                else decimal (n div 10) @ [''0123456789'' ! (n mod 10)])"
  by pat_completeness auto
termination
  by (relation "measure id") auto

declare decimal.simps [simp del]

subsection \<open>Errors and the platform\<close>

text \<open>
  A thrown value: the \<^verbatim>\<open>name\<close> and the \<^verbatim>\<open>message\<close> of an \<^verbatim>\<open>Error\<close> object. A
  computation that may throw returns \<open>js_error + 'a\<close>, \<open>Inl\<close> being the throw; an
  \<^verbatim>\<open>async\<close> function that rejects returns \<open>Inl\<close> of the reason.
\<close>

record js_error =
  error_name :: string
  error_message :: string

definition Error :: "string \<Rightarrow> js_error" where
  "Error msg = \<lparr>error_name = ''Error'', error_message = msg\<rparr>"

text \<open>
  A \<^verbatim>\<open>URL\<close> object: \<open>href\<close> is the URL without its query, \<open>searchParams\<close> the list of
  name-value pairs of its query, in order; \<^verbatim>\<open>url.toString()\<close> serialises the two.
\<close>

record url =
  href :: string
  searchParams :: "(string \<times> string) list"

text \<open>
  What the JavaScript platform provides and the repository only calls is a parameter of
  the model: the parser behind \<^verbatim>\<open>Number(string)\<close>, the rendering of a number that is not
  a safe integer, \<^verbatim>\<open>toLocaleString\<close>, \<^verbatim>\<open>toFixed\<close>, the parser behind
  \<^verbatim>\<open>new URL(path, base)\<close> (which throws a \<^verbatim>\<open>TypeError\<close> on an invalid URL), and the
  build-time variable \<^verbatim>\<open>import.meta.env.VITE_API_BASE_URL\<close>.
\<close>

record platform =
  Number :: "string \<Rightarrow> number"
  render_fraction :: "real \<Rightarrow> string"
  toLocaleString :: "number \<Rightarrow> nat \<Rightarrow> string"
  toFixed :: "number \<Rightarrow> nat \<Rightarrow> string"
  new_URL :: "string \<Rightarrow> string \<Rightarrow> js_error + url"
  VITE_API_BASE_URL :: "string nullable"

text \<open>
  \<^verbatim>\<open>String(n)\<close> for a number: the special values have fixed names, an integer of
  magnitude at most \<open>2^53\<close> is written with its decimal digits, any other finite value
  is rendered by the platform.
\<close>

definition String_of :: "platform \<Rightarrow> number \<Rightarrow> string" where
  "String_of P n =
     (case n of
        NaN \<Rightarrow> ''NaN''
      | PosInfinity \<Rightarrow> ''Infinity''
      | NegInfinity \<Rightarrow> ''-Infinity''
      | Fin x \<Rightarrow>
          if x = of_int \<lfloor>x\<rfloor> \<and> \<bar>x\<bar> \<le> 2 ^ 53
          then (if x < 0 then ''-'' else []) @ decimal (nat \<bar>\<lfloor>x\<rfloor>\<bar>)
          else render_fraction P x)"

text \<open>
  \<^verbatim>\<open>URLSearchParams.set(name, value)\<close>: the first pair called \<open>name\<close> takes the value and
  the later ones are removed; without such a pair, the new one is appended.
\<close>

fun URLSearchParams_set :: "string \<Rightarrow> string \<Rightarrow> (string \<times> string) list \<Rightarrow> (string \<times> string) list" where
  "URLSearchParams_set k v [] = [(k, v)]"
| "URLSearchParams_set k v (p # ps) =
     (if fst p = k then (k, v) # filter (\<lambda>q. fst q \<noteq> k) ps
      else p # URLSearchParams_set k v ps)"

text \<open>\<^verbatim>\<open>URLSearchParams.getAll(name)\<close>: the values of the pairs called \<open>name\<close>, in order.\<close>

definition URLSearchParams_getAll :: "string \<Rightarrow> (string \<times> string) list \<Rightarrow> string list" where
  "URLSearchParams_getAll k ps = map snd (filter (\<lambda>q. fst q = k) ps)"

section \<open>The fetch helper (Builder A's client)\<close>

text \<open>A parameter value of \<^verbatim>\<open>Record<string, string | number | undefined>\<close>.\<close>

datatype param_value = ParamUndefined | ParamString string | ParamNumber number

fun String_value :: "platform \<Rightarrow> param_value \<Rightarrow> string" where
  "String_value P ParamUndefined = ''undefined''"
| "String_value P (ParamString s) = s"
| "String_value P (ParamNumber n) = String_of P n"

definition API_BASE_URL :: "platform \<Rightarrow> string" where
  "API_BASE_URL P =
     (case VITE_API_BASE_URL P of Value b \<Rightarrow> b | _ \<Rightarrow> ''http://localhost:8000'')"

text \<open>
  \<open>params\<close> is \<^verbatim>\<open>Object.entries(params)\<close>, \<open>None\<close> when the argument is left out. The
  result is the URL object whose serialisation \<^verbatim>\<open>buildUrl\<close> returns.
\<close>

definition kept :: "string \<times> param_value \<Rightarrow> bool" where
  "kept entry = (snd entry \<noteq> ParamUndefined \<and> snd entry \<noteq> ParamString [])"

definition buildUrl :: "platform \<Rightarrow> string \<Rightarrow> (string \<times> param_value) list option \<Rightarrow> js_error + url" where
  "buildUrl P path params =
     (case new_URL P path (API_BASE_URL P) of
        Inl e \<Rightarrow> Inl e
      | Inr u \<Rightarrow>
          (case params of
             None \<Rightarrow> Inr u
           | Some entries \<Rightarrow>
               Inr (u\<lparr>searchParams :=
                      fold (\<lambda>(key, value). URLSearchParams_set key (String_value P value))
                        (filter kept entries) (searchParams u)\<rparr>)))"

text \<open>
  A \<^verbatim>\<open>Response\<close>: its status and what \<^verbatim>\<open>response.json()\<close> settles to, the parsed body
  or the rejection of a body that is not JSON. \<^verbatim>\<open>response.ok\<close> is, by the Fetch
  standard, the status being in the range 200 to 299.
\<close>

record 'a response =
  status :: nat
  json :: "js_error + 'a"

definition ok :: "'a response \<Rightarrow> bool" where
  "ok r = (200 \<le> status r \<and> status r \<le> 299)"

text \<open>
  \<open>fetch\<close> is the network: what the call of \<^verbatim>\<open>fetch\<close> on a URL settles to, a rejection
  (network failure, abort) or a response.
\<close>

definition get :: "platform \<Rightarrow> (url \<Rightarrow> js_error + 'a response) \<Rightarrow> string \<Rightarrow>
    (string \<times> param_value) list option \<Rightarrow> js_error + 'a" where
  "get P fetch path params =
     (case buildUrl P path params of
        Inl e \<Rightarrow> Inl e
      | Inr u \<Rightarrow>
          (case fetch u of
             Inl e \<Rightarrow> Inl e
           | Inr response \<Rightarrow>
               if \<not> ok response
               then Inl (Error (''Request failed with status '' @ String_of P (Fin (real (status response)))))
               else json response))"

section \<open>Builder A: the paged contract\<close>

subsection \<open>Filter state (usePlanetFilters)\<close>

text \<open>
  The field \<^verbatim>\<open>method\<close> is called \<open>filter_method\<close> here. \<^verbatim>\<open>orderDir\<close> has the type
  \<^verbatim>\<open>'asc' | 'desc'\<close>, but \<^verbatim>\<open>updateFilter\<close> stores any string under any key, so all six
  fields are strings.
\<close>

record PlanetFilterState =
  search :: string
  filter_method :: string
  minYear :: string
  maxYear :: string
  orderBy :: string
  orderDir :: string

definition defaultState :: PlanetFilterState where
  "defaultState =
     \<lparr>search = [], filter_method = [], minYear = [], maxYear = [],
      orderBy = ''discovery_year'', orderDir = ''desc''\<rparr>"

datatype filter_key = Key_search | Key_method | Key_minYear | Key_maxYear | Key_orderBy | Key_orderDir

text \<open>The object \<^verbatim>\<open>{ ...prev, [key]: value }\<close>.\<close>

fun spread_with :: "PlanetFilterState \<Rightarrow> filter_key \<Rightarrow> string \<Rightarrow> PlanetFilterState" where
  "spread_with prev Key_search v = prev\<lparr>search := v\<rparr>"
| "spread_with prev Key_method v = prev\<lparr>filter_method := v\<rparr>"
| "spread_with prev Key_minYear v = prev\<lparr>minYear := v\<rparr>"
| "spread_with prev Key_maxYear v = prev\<lparr>maxYear := v\<rparr>"
| "spread_with prev Key_orderBy v = prev\<lparr>orderBy := v\<rparr>"
| "spread_with prev Key_orderDir v = prev\<lparr>orderDir := v\<rparr>"

subsection \<open>Query builder and hook (usePlanetList)\<close>

definition PAGE_SIZE :: number where
  "PAGE_SIZE = Fin 20"

definition mapFiltersToParams :: "PlanetFilterState \<Rightarrow> number \<Rightarrow> (string \<times> param_value) list" where
  "mapFiltersToParams filters page =
     [(''limit'', ParamNumber PAGE_SIZE),
      (''page'', ParamNumber page),
      (''name'', ParamString (search filters)),
      (''method'', ParamString (filter_method filters)),
      (''min_year'', ParamString (minYear filters)),
      (''max_year'', ParamString (maxYear filters)),
      (''order_by'', ParamString (orderBy filters)),
      (''order_dir'', ParamString (orderDir filters))]"

text \<open>
  The state of \<^verbatim>\<open>PlanetsPage\<close>, which calls \<^verbatim>\<open>usePlanetFilters\<close> and passes its
  \<^verbatim>\<open>filters\<close> to \<^verbatim>\<open>usePlanetList\<close>:
  \<^item> \<open>filters\<close> is the current filter object and \<open>filters_id\<close> its identity (React
    compares the dependencies of an effect with \<^verbatim>\<open>Object.is\<close>); \<open>fresh\<close> is the next
    unused identity, \<^verbatim>\<open>defaultState\<close> being object \<open>0\<close>;
  \<^item> \<open>page\<close> is the \<^verbatim>\<open>useState\<close> cell of \<^verbatim>\<open>usePlanetList\<close>;
  \<^item> \<open>effect_dep\<close> is the identity of \<^verbatim>\<open>filters\<close> when the effect last ran, \<open>None\<close>
    before the first render;
  \<^item> \<open>query_key\<close> is the key \<^verbatim>\<open>['planets', { filters, page }]\<close> of the last render
    (compared by structure), and \<open>issued\<close> lists, oldest first, the parameters of every
    call \<^verbatim>\<open>get('/planets', mapFiltersToParams(filters, page))\<close> made by the query function.
\<close>

record PlanetsPage =
  filters_id :: nat
  filters :: PlanetFilterState
  fresh :: nat
  page :: number
  effect_dep :: "nat option"
  query_key :: "(PlanetFilterState \<times> number) option"
  issued :: "(string \<times> param_value) list list"

text \<open>
  One render of \<^verbatim>\<open>usePlanetList(filters)\<close> and the effects it commits. The render reads
  \<^verbatim>\<open>page\<close> and hands \<^verbatim>\<open>useQuery\<close> the key and the query function built from the
  \<^verbatim>\<open>filters\<close> and the \<^verbatim>\<open>page\<close> of this render; a key that differs from the one of the
  render before starts a request. The effect \<^verbatim>\<open>setPage(1)\<close> runs after the render, when
  \<^verbatim>\<open>filters\<close> is not the object of the last run.
\<close>

definition usePlanetList :: "PlanetsPage \<Rightarrow> PlanetsPage" where
  "usePlanetList st =
     (let key = (filters st, page st);
          queried =
            (if query_key st = Some key then st
             else st\<lparr>query_key := Some key,
                     issued := issued st @ [mapFiltersToParams (filters st) (page st)]\<rparr>)
      in if effect_dep st = Some (filters_id st) then queried
         else queried\<lparr>effect_dep := Some (filters_id st), page := Fin 1\<rparr>)"

text \<open>
  A state update renders the component again; when the effect of that render has changed
  \<^verbatim>\<open>page\<close>, a second render follows, after which no effect is pending.
\<close>

definition rerender :: "PlanetsPage \<Rightarrow> PlanetsPage" where
  "rerender st =
     (let st' = usePlanetList st in if page st' = page st then st' else usePlanetList st')"

definition mount :: PlanetsPage where
  "mount =
     rerender \<lparr>filters_id = 0, filters = defaultState, fresh = 1, page = Fin 1,
               effect_dep = None, query_key = None, issued = []\<rparr>"

definition updateFilter :: "filter_key \<Rightarrow> string \<Rightarrow> PlanetsPage \<Rightarrow> PlanetsPage" where
  "updateFilter key v st =
     rerender (st\<lparr>filters := spread_with (filters st) key v,
                  filters_id := fresh st, fresh := Suc (fresh st)\<rparr>)"

definition resetFilters :: "PlanetsPage \<Rightarrow> PlanetsPage" where
  "resetFilters st = rerender (st\<lparr>filters := defaultState, filters_id := 0\<rparr>)"

definition setPage :: "number \<Rightarrow> PlanetsPage \<Rightarrow> PlanetsPage" where
  "setPage p st = rerender (st\<lparr>page := p\<rparr>)"

subsection \<open>The table (PlanetsTable)\<close>

record PlanetSummary =
  summary_id :: number
  summary_name :: string
  discovery_method :: string
  discovery_year :: "number nullable"
  orbital_period :: "number nullable"
  radius :: "number nullable"
  mass :: "number nullable"


text \<open>What a JSX expression \<^verbatim>\<open>{e}\<close> in a table cell evaluates to.\<close>

datatype jsx_child = JsxNull | JsxUndefined | JsxNumber number | JsxString string

text \<open>\<^verbatim>\<open>planet.discovery_year ?? dash\<close>, the dash being the em dash.\<close>

fun year_cell :: "number nullable \<Rightarrow> jsx_child" where
  "year_cell (Value n) = JsxNumber n"
| "year_cell _ = JsxString EM_DASH"

text \<open>\<^verbatim>\<open>value?.toFixed(2) ?? dash\<close>\<close>

fun fixed_cell :: "platform \<Rightarrow> number nullable \<Rightarrow> jsx_child" where
  "fixed_cell P (Value n) = JsxString (toFixed P n 2)"
| "fixed_cell P _ = JsxString EM_DASH"

text \<open>The six cells of the row of one planet.\<close>

definition table_row :: "platform \<Rightarrow> PlanetSummary \<Rightarrow> jsx_child list" where
  "table_row P planet =
     [JsxString (summary_name planet),
      JsxString (discovery_method planet),
      year_cell (discovery_year planet),
      fixed_cell P (orbital_period planet),
      fixed_cell P (radius planet),
      fixed_cell P (mass planet)]"





section \<open>Builder B: the offset contract (ExoplanetDashboard)\<close>

subsection \<open>Data\<close>

text \<open>
  The fields of a planet are declared \<^verbatim>\<open>number\<close>; the body of a response is not
  validated, so a field can hold \<^verbatim>\<open>null\<close> all the same.
\<close>

record Planet =
  planet_id :: number
  planet_name :: string
  planet_disc_method :: string
  disc_year :: "number nullable"
  orbperd :: "number nullable"
  rade :: "number nullable"
  masse :: "number nullable"
  st_teff :: "number nullable"
  st_rad :: "number nullable"
  st_mass :: "number nullable"

record PlanetList =
  items :: "Planet list"
  response_limit :: number
  response_offset :: number
  total :: number

record MethodCount =
  count_disc_method :: string
  method_count :: number

record MetricSummary =
  summary_min :: "number nullable"
  summary_max :: "number nullable"
  summary_avg :: "number nullable"

record PlanetStats =
  stats_count :: number
  stats_orbperd :: MetricSummary
  stats_rade :: MetricSummary
  stats_masse :: MetricSummary
  stats_st_teff :: MetricSummary
  stats_st_rad :: MetricSummary
  stats_st_mass :: MetricSummary

record Filters =
  name :: string
  disc_method :: string
  min_year :: string
  max_year :: string
  min_orbperd :: string
  max_orbperd :: string
  min_rade :: string
  max_rade :: string
  min_masse :: string
  max_masse :: string
  min_st_teff :: string
  max_st_teff :: string
  min_st_rad :: string
  max_st_rad :: string
  min_st_mass :: string
  max_st_mass :: string
  include_deleted :: bool
  sort_by :: string
  sort_order :: string

record FetchState =
  planets :: "PlanetList option"
  methodCounts :: "MethodCount list"
  stats :: "PlanetStats option"
  loading :: bool
  error :: "string option"

definition DEFAULT_FILTERS :: Filters where
  "DEFAULT_FILTERS =
     \<lparr>name = [], disc_method = [], min_year = [], max_year = [],
      min_orbperd = [], max_orbperd = [], min_rade = [], max_rade = [],
      min_masse = [], max_masse = [], min_st_teff = [], max_st_teff = [],
      min_st_rad = [], max_st_rad = [], min_st_mass = [], max_st_mass = [],
      include_deleted = False, sort_by = ''id'', sort_order = ''desc''\<rparr>"

subsection \<open>Parsing and formatting\<close>

definition numericOrUndefined :: "platform \<Rightarrow> string \<Rightarrow> number option" where
  "numericOrUndefined P v =
     (if trim v = [] then None
      else let parsed = Number P v in if isFinite parsed then Some parsed else None)"

text \<open>\<^verbatim>\<open>formatNumber(value, fractionDigits = 2)\<close>\<close>

fun formatNumber :: "platform \<Rightarrow> number nullable \<Rightarrow> nat \<Rightarrow> string" where
  "formatNumber P Null fractionDigits = ''-''"
| "formatNumber P Undefined fractionDigits = ''-''"
| "formatNumber P (Value n) fractionDigits = toLocaleString P n fractionDigits"

subsection \<open>Query builder (buildParams)\<close>

text \<open>The keys of the fourteen numeric filter fields, and \<^verbatim>\<open>source[key]\<close>.\<close>

datatype numeric_key =
    Key_min_year | Key_max_year | Key_min_orbperd | Key_max_orbperd
  | Key_min_rade | Key_max_rade | Key_min_masse | Key_max_masse
  | Key_min_st_teff | Key_max_st_teff | Key_min_st_rad | Key_max_st_rad
  | Key_min_st_mass | Key_max_st_mass

fun field :: "Filters \<Rightarrow> numeric_key \<Rightarrow> string" where
  "field source Key_min_year = min_year source"
| "field source Key_max_year = max_year source"
| "field source Key_min_orbperd = min_orbperd source"
| "field source Key_max_orbperd = max_orbperd source"
| "field source Key_min_rade = min_rade source"
| "field source Key_max_rade = max_rade source"
| "field source Key_min_masse = min_masse source"
| "field source Key_max_masse = max_masse source"
| "field source Key_min_st_teff = min_st_teff source"
| "field source Key_max_st_teff = max_st_teff source"
| "field source Key_min_st_rad = min_st_rad source"
| "field source Key_max_st_rad = max_st_rad source"
| "field source Key_min_st_mass = min_st_mass source"
| "field source Key_max_st_mass = max_st_mass source"

definition numericFilters :: "(numeric_key \<times> string) list" where
  "numericFilters =
     [(Key_min_year, ''min_year''), (Key_max_year, ''max_year''),
      (Key_min_orbperd, ''min_orbperd''), (Key_max_orbperd, ''max_orbperd''),
      (Key_min_rade, ''min_rade''), (Key_max_rade, ''max_rade''),
      (Key_min_masse, ''min_masse''), (Key_max_masse, ''max_masse''),
      (Key_min_st_teff, ''min_st_teff''), (Key_max_st_teff, ''max_st_teff''),
      (Key_min_st_rad, ''min_st_rad''), (Key_max_st_rad, ''max_st_rad''),
      (Key_min_st_mass, ''min_st_mass''), (Key_max_st_mass, ''max_st_mass'')]"

text \<open>The body of \<^verbatim>\<open>numericFilters.forEach\<close>.\<close>

definition set_numeric :: "platform \<Rightarrow> Filters \<Rightarrow> numeric_key \<times> string \<Rightarrow>
    (string \<times> string) list \<Rightarrow> (string \<times> string) list" where
  "set_numeric P source entry params =
     (case numericOrUndefined P (field source (fst entry)) of
        None \<Rightarrow> params
      | Some v \<Rightarrow> URLSearchParams_set (snd entry) (String_of P v) params)"

text \<open>\<open>limit\<close> is the \<^verbatim>\<open>limit\<close> state the callback closes over.\<close>

definition buildParams :: "platform \<Rightarrow> number \<Rightarrow> Filters \<Rightarrow> number \<Rightarrow> (string \<times> string) list" where
  "buildParams P limit source useOffset =
     (let params = [];
          params = URLSearchParams_set ''limit'' (String_of P limit) params;
          params = URLSearchParams_set ''offset'' (String_of P useOffset) params;
          params = (if trim (name source) \<noteq> []
                    then URLSearchParams_set ''name'' (trim (name source)) params else params);
          params = (if trim (disc_method source) \<noteq> []
                    then URLSearchParams_set ''disc_method'' (trim (disc_method source)) params
                    else params);
          params = (if include_deleted source
                    then URLSearchParams_set ''include_deleted'' ''true'' params else params);
          params = URLSearchParams_set ''sort_by'' (sort_by source) params;
          params = URLSearchParams_set ''sort_order'' (sort_order source) params
      in fold (set_numeric P source) numericFilters params)"

subsection \<open>The three fetches (fetchAll)\<close>

text \<open>What a promise settles to.\<close>

datatype 'a settled = Fulfilled 'a | Rejected js_error

text \<open>
  \<^verbatim>\<open>fetch(url, { signal }).then(async (res) => { if (!res.ok) throw new Error(...);
  return await res.json(); })\<close>: \<open>fetched\<close> is what the call of \<^verbatim>\<open>fetch\<close> settles to and
  \<open>label\<close> the text of the message before the status.
\<close>

definition fetch_then :: "platform \<Rightarrow> string \<Rightarrow> js_error + 'a response \<Rightarrow> 'a settled" where
  "fetch_then P label fetched =
     (case fetched of
        Inl e \<Rightarrow> Rejected e
      | Inr res \<Rightarrow>
          if \<not> ok res then Rejected (Error (label @ String_of P (Fin (real (status res)))))
          else (case json res of Inl e \<Rightarrow> Rejected e | Inr body \<Rightarrow> Fulfilled body))"

definition planets_label :: string where
  "planets_label = ''Gezegenler getirilemedi: ''"

definition methodCounts_label :: string where
  "methodCounts_label = ''Y'' @ o_umlaut @ ''ntem istatistikleri getirilemedi: ''"

definition stats_label :: string where
  "stats_label = capital_dotted_I @ ''statistikler getirilemedi: ''"

text \<open>
  \<^verbatim>\<open>Promise.all\<close> of the three promises. It rejects as soon as one of them rejects, with
  that reason, so the result depends on the order in which they settle: \<open>order\<close> lists
  the promises in that order, and one that is not listed never settles. The result is
  \<open>None\<close> when \<^verbatim>\<open>Promise.all\<close> never settles.
\<close>

datatype slot = PlanetsSlot | MethodCountsSlot | StatsSlot

fun rejection :: "'a settled \<Rightarrow> js_error option" where
  "rejection (Rejected e) = Some e"
| "rejection (Fulfilled v) = None"

definition rejection_of :: "'a settled \<Rightarrow> 'b settled \<Rightarrow> 'c settled \<Rightarrow> slot \<Rightarrow> js_error option" where
  "rejection_of p m s sl =
     (case sl of PlanetsSlot \<Rightarrow> rejection p | MethodCountsSlot \<Rightarrow> rejection m
      | StatsSlot \<Rightarrow> rejection s)"

definition first_rejection :: "slot list \<Rightarrow> 'a settled \<Rightarrow> 'b settled \<Rightarrow> 'c settled \<Rightarrow> js_error option" where
  "first_rejection order p m s =
     (case List.map_filter (rejection_of p m s) order of [] \<Rightarrow> None | e # es \<Rightarrow> Some e)"

definition Promise_all :: "slot list \<Rightarrow> 'a settled \<Rightarrow> 'b settled \<Rightarrow> 'c settled \<Rightarrow>
    ('a \<times> 'b \<times> 'c) settled option" where
  "Promise_all order p m s =
     (case first_rejection order p m s of
        Some e \<Rightarrow> Some (Rejected e)
      | None \<Rightarrow>
          (case (p, m, s) of
             (Fulfilled a, Fulfilled b, Fulfilled c) \<Rightarrow>
               if set order = {PlanetsSlot, MethodCountsSlot, StatsSlot}
               then Some (Fulfilled (a, b, c)) else None
           | _ \<Rightarrow> None))"

text \<open>
  \<^verbatim>\<open>fetchAll\<close> on the fetch state \<open>st\<close>: the first \<^verbatim>\<open>setFetchState\<close>, then the outcome of
  the \<^verbatim>\<open>await\<close>. The three \<open>fetched\<close> arguments are what the network answers to the
  three requests.
\<close>

definition fetchAll :: "platform \<Rightarrow> slot list \<Rightarrow> js_error + PlanetList response \<Rightarrow>
    js_error + MethodCount list response \<Rightarrow> js_error + PlanetStats response \<Rightarrow>
    FetchState \<Rightarrow> FetchState" where
  "fetchAll P order planets_fetched methodCounts_fetched stats_fetched st =
     (let started = st\<lparr>loading := True, error := None\<rparr>;
          planetsPromise = fetch_then P planets_label planets_fetched;
          methodCountsPromise = fetch_then P methodCounts_label methodCounts_fetched;
          statsPromise = fetch_then P stats_label stats_fetched
      in case Promise_all order planetsPromise methodCountsPromise statsPromise of
           None \<Rightarrow> started
         | Some (Fulfilled (planetsResponse, methodCountsResponse, statsResponse)) \<Rightarrow>
             \<lparr>planets = Some planetsResponse, methodCounts = methodCountsResponse,
              stats = Some statsResponse, loading = False, error = None\<rparr>
         | Some (Rejected err) \<Rightarrow>
             if error_name err = ''AbortError'' then started
             else \<lparr>planets = None, methodCounts = [], stats = None, loading = False,
                   error = Some (error_message err)\<rparr>)"

subsection \<open>Pagination\<close>

text \<open>
  The state of the dashboard that pagination reads and writes: the four \<^verbatim>\<open>useState\<close>
  cells \<^verbatim>\<open>filters\<close>, \<^verbatim>\<open>appliedFilters\<close>, \<^verbatim>\<open>limit\<close> and \<^verbatim>\<open>offset\<close>.
\<close>

record Dashboard =
  form_filters :: Filters
  appliedFilters :: Filters
  limit :: number
  offset :: number




















subsection \<open>The table\<close>

text \<open>The ten cells of the row of one planet; \<^verbatim>\<open>{planet.disc_year}\<close> is the field itself.\<close>

fun raw_cell :: "number nullable \<Rightarrow> jsx_child" where
  "raw_cell Null = JsxNull"
| "raw_cell Undefined = JsxUndefined"
| "raw_cell (Value n) = JsxNumber n"

definition dashboard_row :: "platform \<Rightarrow> Planet \<Rightarrow> jsx_child list" where
  "dashboard_row P planet =
     [JsxNumber (planet_id planet),
      JsxString (planet_name planet),
      JsxString (planet_disc_method planet),
      raw_cell (disc_year planet),
      JsxString (formatNumber P (orbperd planet) 2),
      JsxString (formatNumber P (rade planet) 2),
      JsxString (formatNumber P (masse planet) 2),
      JsxString (formatNumber P (st_teff planet) 2),
      JsxString (formatNumber P (st_rad planet) 2),
      JsxString (formatNumber P (st_mass planet) 2)]"

section \<open>A sample platform\<close>

text \<open>
  The theorems below hold for every platform. Where one of them is applied to a concrete
  input, the platform is this one: it agrees with JavaScript on strings of decimal digits
  with white space around them (\<^verbatim>\<open>Number('25')\<close> is \<open>25\<close>, \<^verbatim>\<open>Number('')\<close> is \<open>0\<close>), on
  integers below 1000 and on paths without query and fragment, and takes every other
  string for not numeric.
\<close>

fun position :: "char \<Rightarrow> string \<Rightarrow> nat \<Rightarrow> nat option" where
  "position c [] i = None"
| "position c (d # ds) i = (if c = d then Some i else position c ds (Suc i))"

definition digit_value :: "char \<Rightarrow> nat option" where
  "digit_value c = position c ''0123456789'' 0"

fun digits_value :: "nat \<Rightarrow> string \<Rightarrow> nat option" where
  "digits_value acc [] = Some acc"
| "digits_value acc (c # cs) =
     (case digit_value c of None \<Rightarrow> None | Some d \<Rightarrow> digits_value (10 * acc + d) cs)"

definition sample_Number :: "string \<Rightarrow> number" where
  "sample_Number s = (case digits_value 0 (trim s) of None \<Rightarrow> NaN | Some n \<Rightarrow> Fin (real n))"

definition sample_integer :: "number \<Rightarrow> string" where
  "sample_integer n = (case n of Fin x \<Rightarrow> decimal (nat \<lfloor>x\<rfloor>) | _ \<Rightarrow> ''NaN'')"

definition sample_platform :: platform where
  "sample_platform =
     \<lparr>Number = sample_Number,
      render_fraction = (\<lambda>x. ''?''),
      toLocaleString = (\<lambda>n digits. sample_integer n),
      toFixed = (\<lambda>n digits. sample_integer n @ ''.'' @ replicate digits CHR ''0''),
      new_URL = (\<lambda>path base. Inr \<lparr>href = base @ path, searchParams = []\<rparr>),
      VITE_API_BASE_URL = Undefined\<rparr>"

section \<open>Predicates and sample data\<close>

text \<open>\<^verbatim>\<open>value === null || value === undefined\<close>\<close>

fun nullish :: "'a nullable \<Rightarrow> bool" where
  "nullish (Value v) = False"
| "nullish _ = True"



text \<open>A planet of each contract with measurements missing.\<close>

definition unknown_year :: Planet where
  "unknown_year =
     \<lparr>planet_id = Fin 7, planet_name = ''Kepler-22 b'', planet_disc_method = ''Transit'',
      disc_year = Null, orbperd = Value (Fin 290), rade = Null, masse = Undefined,
      st_teff = Null, st_rad = Null, st_mass = Null\<rparr>"

definition unmeasured :: PlanetSummary where
  "unmeasured =
     \<lparr>summary_id = Fin 7, summary_name = ''Kepler-22 b'', discovery_method = ''Transit'',
      discovery_year = Null, orbital_period = Null, radius = Undefined, mass = Null\<rparr>"

text \<open>The rejection of an aborted fetch, and bodies of the three responses of Builder B.\<close>

definition AbortError :: js_error where
  "AbortError = \<lparr>error_name = ''AbortError'', error_message = ''The operation was aborted.''\<rparr>"

definition two_planets :: PlanetList where
  "two_planets =
     \<lparr>items = [unknown_year, unknown_year], response_limit = Fin 25,
      response_offset = Fin 0, total = Fin 2\<rparr>"

definition by_transit :: "MethodCount list" where
  "by_transit = [\<lparr>count_disc_method = ''Transit'', method_count = Fin 2\<rparr>]"

definition no_summary :: MetricSummary where
  "no_summary = \<lparr>summary_min = Null, summary_max = Null, summary_avg = Null\<rparr>"

definition two_stats :: PlanetStats where
  "two_stats =
     \<lparr>stats_count = Fin 2, stats_orbperd = no_summary, stats_rade = no_summary,
      stats_masse = no_summary, stats_st_teff = no_summary, stats_st_rad = no_summary,
      stats_st_mass = no_summary\<rparr>"

text \<open>
  Fetch states before a batch: nothing loaded, and the error of a failed batch. The order
  in which the three promises of a batch settle.
\<close>

definition idle :: FetchState where
  "idle = \<lparr>planets = None, methodCounts = [], stats = None, loading = False, error = None\<rparr>"

definition failed_before :: FetchState where
  "failed_before =
     \<lparr>planets = None, methodCounts = [], stats = None, loading = False,
      error = Some ''Gezegenler getirilemedi: 503''\<rparr>"

definition settle_order :: "slot list" where
  "settle_order = [StatsSlot, PlanetsSlot, MethodCountsSlot]"

text \<open>A server that knows one path and answers 404 on every other.\<close>

definition localhost :: "url \<Rightarrow> js_error + nat response" where
  "localhost u =
     (if href u = ''http://localhost:8000/planets/stats''
      then Inr \<lparr>status = 200, json = Inr 42\<rparr> else Inr \<lparr>status = 404, json = Inr 0\<rparr>)"



text \<open>
  The filters of Builder B as typed into the form: spaces for the first year, letters for
  the smallest radius, digits for the largest one, the other fields as they start.
\<close>

definition typed :: Filters where
  "typed = DEFAULT_FILTERS\<lparr>min_year := ''  '', min_rade := ''abc'', max_rade := ''12''\<rparr>"

text \<open>
  The entries of a parameter object with a text, an \<^verbatim>\<open>undefined\<close>, an empty string and the
  number zero.
\<close>

definition chart_params :: "(string \<times> param_value) list" where
  "chart_params =
     [(''chart'', ParamString ''hist''), (''bins'', ParamUndefined), (''method'', ParamString []),
      (''year'', ParamNumber (Fin 0))]"

text \<open>The page of Builder A after two clicks on "Next".\<close>

definition third_page :: PlanetsPage where
  "third_page = setPage (Fin 3) (setPage (Fin 2) mount)"

section \<open>Properties\<close>

subsection \<open>Page numbers of the offset contract\<close>



subsection \<open>Pagination controls\<close>




subsection \<open>Missing measurements in the tables\<close>

text \<open>
  Claim C10, as stated, fails for the discovery year of Builder B: the cell holds the
  field itself, \<^verbatim>\<open>{planet.disc_year}\<close>, so a \<^verbatim>\<open>null\<close> year gives a cell with no text, not
  the placeholder.
\<close>

theorem placeholder_counterexample:
  "disc_year unknown_year = Null
   \<and> dashboard_row sample_platform unknown_year ! 3 = JsxNull
   \<and> dashboard_row sample_platform unknown_year ! 3 \<noteq> JsxString ''-''"
  by (simp add: dashboard_row_def unknown_year_def)

lemma EM_DASH_not_digits: "EM_DASH \<noteq> ''0''" "EM_DASH \<noteq> ''NaN''"
  by (simp_all add: EM_DASH_def)

text \<open>
  Claim C10, amended. A \<^verbatim>\<open>null\<close> or \<^verbatim>\<open>undefined\<close> measurement is rendered as the
  placeholder, never as \<^verbatim>\<open>0\<close> or \<^verbatim>\<open>NaN\<close>: as the em dash in the four numeric cells of
  Builder A (discovery year, orbital period, radius, mass), and as \<^verbatim>\<open>-\<close> in the six cells
  that Builder B formats with \<^verbatim>\<open>formatNumber\<close> (orbital period, radius, mass, stellar
  temperature, stellar radius, stellar mass).
\<close>

theorem null_fields_render_placeholder:
  "(nullish (discovery_year a) \<longrightarrow> table_row P a ! 2 = JsxString EM_DASH)
   \<and> (nullish (orbital_period a) \<longrightarrow> table_row P a ! 3 = JsxString EM_DASH)
   \<and> (nullish (radius a) \<longrightarrow> table_row P a ! 4 = JsxString EM_DASH)
   \<and> (nullish (mass a) \<longrightarrow> table_row P a ! 5 = JsxString EM_DASH)
   \<and> (nullish (orbperd b) \<longrightarrow> dashboard_row P b ! 4 = JsxString ''-'')
   \<and> (nullish (rade b) \<longrightarrow> dashboard_row P b ! 5 = JsxString ''-'')
   \<and> (nullish (masse b) \<longrightarrow> dashboard_row P b ! 6 = JsxString ''-'')
   \<and> (nullish (st_teff b) \<longrightarrow> dashboard_row P b ! 7 = JsxString ''-'')
   \<and> (nullish (st_rad b) \<longrightarrow> dashboard_row P b ! 8 = JsxString ''-'')
   \<and> (nullish (st_mass b) \<longrightarrow> dashboard_row P b ! 9 = JsxString ''-'')
   \<and> JsxString EM_DASH \<notin> {JsxString ''0'', JsxString ''NaN''}
   \<and> JsxString ''-'' \<notin> {JsxString ''0'', JsxString ''NaN''}"
proof -
  have year: "nullish v \<Longrightarrow> year_cell v = JsxString EM_DASH" for v
    by (cases v) simp_all
  have fixed: "nullish v \<Longrightarrow> fixed_cell P v = JsxString EM_DASH" for v
    by (cases v) simp_all
  have fmt: "nullish v \<Longrightarrow> formatNumber P v 2 = ''-''" for v
    by (cases v) simp_all
  show ?thesis
    by (simp add: table_row_def dashboard_row_def year fixed fmt EM_DASH_not_digits)
qed

theorem null_fields_render_placeholder_witness:
  "nullish (discovery_year unmeasured) \<and> nullish (orbital_period unmeasured)
   \<and> nullish (radius unmeasured) \<and> nullish (mass unmeasured)
   \<and> nullish (rade unknown_year) \<and> nullish (masse unknown_year)
   \<and> table_row sample_platform unmeasured =
       [JsxString ''Kepler-22 b'', JsxString ''Transit'', JsxString EM_DASH,
        JsxString EM_DASH, JsxString EM_DASH, JsxString EM_DASH]
   \<and> dashboard_row sample_platform unknown_year ! 5 = JsxString ''-''
   \<and> dashboard_row sample_platform unknown_year ! 6 = JsxString ''-''"
proof -
  have h: "nullish (discovery_year unmeasured)" "nullish (orbital_period unmeasured)"
    "nullish (radius unmeasured)" "nullish (mass unmeasured)"
    "nullish (rade unknown_year)" "nullish (masse unknown_year)"
    by (simp_all add: unmeasured_def unknown_year_def)
  have row: "table_row sample_platform unmeasured =
      [JsxString ''Kepler-22 b'', JsxString ''Transit'', table_row sample_platform unmeasured ! 2,
       table_row sample_platform unmeasured ! 3, table_row sample_platform unmeasured ! 4,
       table_row sample_platform unmeasured ! 5]"
    by (simp add: table_row_def unmeasured_def)
  show ?thesis
    using h row null_fields_render_placeholder [of unmeasured sample_platform unknown_year]
    by simp
qed

subsection \<open>The fetch helper\<close>

lemma decimal_status: "n \<le> 999 \<Longrightarrow> String_of P (Fin (real n)) = decimal n"
proof -
  assume "n \<le> 999"
  then have "real n \<le> 2 ^ 53" by simp
  then show ?thesis by (simp add: String_of_def)
qed

lemma sample_buildUrl:
  "buildUrl sample_platform path None =
     Inr \<lparr>href = ''http://localhost:8000'' @ path, searchParams = []\<rparr>"
  by (simp add: buildUrl_def sample_platform_def API_BASE_URL_def)

text \<open>
  Claim C7. When \<^verbatim>\<open>get\<close> has built the URL and the fetch has answered with a response,
  a status outside 200 to 299 makes \<^verbatim>\<open>get\<close> throw the error whose message ends with the
  digits of the status, and a status within 200 to 299 makes it return what
  \<^verbatim>\<open>response.json()\<close> gives, unchanged, whatever the type of the body: nothing is
  validated. (A status has at most three digits.)
\<close>

theorem get_raises_or_returns:
  assumes "buildUrl P path params = Inr u" and "fetch u = Inr r" and "status r \<le> 999"
  shows "(\<not> (200 \<le> status r \<and> status r \<le> 299) \<longrightarrow>
           get P fetch path params = Inl (Error (''Request failed with status '' @ decimal (status r))))
       \<and> (200 \<le> status r \<and> status r \<le> 299 \<longrightarrow> get P fetch path params = json r)"
  using assms by (simp add: get_def ok_def decimal_status)

theorem get_raises_or_returns_witness:
  "get sample_platform localhost ''/planets/stats'' None = Inr 42
   \<and> get sample_platform localhost ''/planets/missing'' None
       = Inl \<lparr>error_name = ''Error'', error_message = ''Request failed with status 404''\<rparr>"
proof -
  let ?ok = "\<lparr>href = ''http://localhost:8000/planets/stats'', searchParams = []\<rparr>"
  let ?no = "\<lparr>href = ''http://localhost:8000/planets/missing'', searchParams = []\<rparr>"
  have b1: "buildUrl sample_platform ''/planets/stats'' None = Inr ?ok"
    by (simp add: sample_buildUrl)
  have b2: "buildUrl sample_platform ''/planets/missing'' None = Inr ?no"
    by (simp add: sample_buildUrl)
  have f1: "localhost ?ok = Inr \<lparr>status = 200, json = Inr 42\<rparr>"
    by (simp add: localhost_def)
  have f2: "localhost ?no = Inr \<lparr>status = 404, json = Inr 0\<rparr>"
    by (simp add: localhost_def)
  have d: "decimal 404 = ''404''" by (simp add: decimal.simps)
  show ?thesis
    using get_raises_or_returns [where fetch = localhost, OF b1 f1]
      get_raises_or_returns [where fetch = localhost, OF b2 f2] d
    by (simp add: Error_def)
qed

subsection \<open>The three fetches of the dashboard\<close>

text \<open>
  Claim C8. When the batch of \<^verbatim>\<open>fetchAll\<close> is cancelled, that is when the rejection
  \<^verbatim>\<open>Promise.all\<close> reports is an \<^verbatim>\<open>AbortError\<close>, \<^verbatim>\<open>fetchAll\<close> returns after its first
  \<^verbatim>\<open>setFetchState\<close> only: the fetch state is the one before with \<^verbatim>\<open>loading\<close> set and
  \<^verbatim>\<open>error\<close> cleared, so no error is shown.
\<close>

theorem fetchAll_cancelled:
  assumes "Promise_all order (fetch_then P planets_label pf) (fetch_then P methodCounts_label mf)
             (fetch_then P stats_label sf) = Some (Rejected e)"
    and "error_name e = ''AbortError''"
  shows "fetchAll P order pf mf sf st = st\<lparr>loading := True, error := None\<rparr>
       \<and> error (fetchAll P order pf mf sf st) = None"
  using assms by (simp add: fetchAll_def)

theorem fetchAll_cancelled_witness:
  "Promise_all settle_order (fetch_then sample_platform planets_label (Inr \<lparr>status = 200, json = Inr two_planets\<rparr>))
      (fetch_then sample_platform methodCounts_label (Inl AbortError))
      (fetch_then sample_platform stats_label (Inl AbortError)) = Some (Rejected AbortError)
   \<and> error_name AbortError = ''AbortError''
   \<and> fetchAll sample_platform settle_order (Inr \<lparr>status = 200, json = Inr two_planets\<rparr>)
        (Inl AbortError) (Inl AbortError) failed_before
       = \<lparr>planets = None, methodCounts = [], stats = None, loading = True, error = None\<rparr>"
proof -
  have h1: "Promise_all settle_order
      (fetch_then sample_platform planets_label (Inr \<lparr>status = 200, json = Inr two_planets\<rparr>))
      (fetch_then sample_platform methodCounts_label (Inl AbortError))
      (fetch_then sample_platform stats_label (Inl AbortError)) = Some (Rejected AbortError)"
    by (simp add: Promise_all_def first_rejection_def rejection_of_def fetch_then_def ok_def
        settle_order_def List.map_filter_simps)
  have h2: "error_name AbortError = ''AbortError''"
    by (simp add: AbortError_def)
  show ?thesis
    using h1 h2 fetchAll_cancelled [OF h1 h2, of failed_before]
    by (simp add: failed_before_def)
qed

text \<open>
  Claim C6. The three fetches are committed together. When all three promises are
  fulfilled, and all have settled, the fetch state holds the three results with
  \<^verbatim>\<open>loading\<close> cleared and no error. When the first promise to reject does so with an error
  that is not a cancellation, the state records the message of that error and holds no
  result: \<^verbatim>\<open>planets\<close> is \<^verbatim>\<open>null\<close>, \<^verbatim>\<open>methodCounts\<close> is empty and \<^verbatim>\<open>stats\<close> is \<^verbatim>\<open>null\<close>,
  whatever the other two fetches gave. And \<^verbatim>\<open>loading\<close> is cleared without an error only
  when all three promises are fulfilled, the state then holding their values.
\<close>

theorem fetchAll_joint:
  assumes "p = fetch_then P planets_label pf"
    and "m = fetch_then P methodCounts_label mf"
    and "s = fetch_then P stats_label sf"
  shows "(p = Fulfilled a \<and> m = Fulfilled b \<and> s = Fulfilled c
          \<and> set order = {PlanetsSlot, MethodCountsSlot, StatsSlot} \<longrightarrow>
            fetchAll P order pf mf sf st =
              \<lparr>planets = Some a, methodCounts = b, stats = Some c, loading = False, error = None\<rparr>)
       \<and> (first_rejection order p m s = Some e \<and> error_name e \<noteq> ''AbortError'' \<longrightarrow>
            fetchAll P order pf mf sf st =
              \<lparr>planets = None, methodCounts = [], stats = None, loading = False,
               error = Some (error_message e)\<rparr>)
       \<and> (\<not> loading (fetchAll P order pf mf sf st) \<and> error (fetchAll P order pf mf sf st) = None \<longrightarrow>
            (\<exists>a b c. p = Fulfilled a \<and> m = Fulfilled b \<and> s = Fulfilled c
               \<and> planets (fetchAll P order pf mf sf st) = Some a
               \<and> methodCounts (fetchAll P order pf mf sf st) = b
               \<and> stats (fetchAll P order pf mf sf st) = Some c))"
proof (intro conjI impI)
  assume h: "p = Fulfilled a \<and> m = Fulfilled b \<and> s = Fulfilled c
          \<and> set order = {PlanetsSlot, MethodCountsSlot, StatsSlot}"
  then have "List.map_filter (rejection_of p m s) order = []"
    by (auto simp add: List.map_filter_def rejection_of_def filter_empty_conv split: slot.splits)
  then have "Promise_all order p m s = Some (Fulfilled (a, b, c))"
    using h by (simp add: Promise_all_def first_rejection_def)
  then show "fetchAll P order pf mf sf st =
     \<lparr>planets = Some a, methodCounts = b, stats = Some c, loading = False, error = None\<rparr>"
    using assms by (simp add: fetchAll_def)
next
  assume h: "first_rejection order p m s = Some e \<and> error_name e \<noteq> ''AbortError''"
  then have "Promise_all order p m s = Some (Rejected e)"
    by (simp add: Promise_all_def)
  then show "fetchAll P order pf mf sf st =
     \<lparr>planets = None, methodCounts = [], stats = None, loading = False,
      error = Some (error_message e)\<rparr>"
    using assms h by (simp add: fetchAll_def)
next
  assume h: "\<not> loading (fetchAll P order pf mf sf st) \<and> error (fetchAll P order pf mf sf st) = None"
  show "\<exists>a b c. p = Fulfilled a \<and> m = Fulfilled b \<and> s = Fulfilled c
               \<and> planets (fetchAll P order pf mf sf st) = Some a
               \<and> methodCounts (fetchAll P order pf mf sf st) = b
               \<and> stats (fetchAll P order pf mf sf st) = Some c"
  proof (cases "Promise_all order p m s")
    case None
    with h assms show ?thesis by (simp add: fetchAll_def)
  next
    case (Some r)
    show ?thesis
    proof (cases r)
      case (Rejected e)
      with Some h assms show ?thesis by (simp add: fetchAll_def split: if_splits)
    next
      case (Fulfilled t)
      obtain a b c where t: "t = (a, b, c)" by (cases t) auto
      from Some Fulfilled t have "p = Fulfilled a \<and> m = Fulfilled b \<and> s = Fulfilled c"
        by (auto simp add: Promise_all_def split: option.splits settled.splits if_splits)
      with Some Fulfilled t assms show ?thesis by (simp add: fetchAll_def)
    qed
  qed
qed

theorem fetchAll_joint_witness:
  "fetchAll sample_platform settle_order (Inr \<lparr>status = 200, json = Inr two_planets\<rparr>)
      (Inr \<lparr>status = 200, json = Inr by_transit\<rparr>) (Inr \<lparr>status = 200, json = Inr two_stats\<rparr>) idle
     = \<lparr>planets = Some two_planets, methodCounts = by_transit, stats = Some two_stats,
        loading = False, error = None\<rparr>
   \<and> fetchAll sample_platform settle_order (Inr \<lparr>status = 200, json = Inr two_planets\<rparr>)
      (Inr \<lparr>status = 500, json = Inr by_transit\<rparr>) (Inr \<lparr>status = 200, json = Inr two_stats\<rparr>) idle
     = \<lparr>planets = None, methodCounts = [], stats = None, loading = False,
        error = Some (''Y'' @ o_umlaut @ ''ntem istatistikleri getirilemedi: 500'')\<rparr>"
proof -
  have d: "String_of sample_platform (Fin 500) = ''500''"
    by (simp add: String_of_def decimal.simps)
  have ok_p: "fetch_then sample_platform planets_label (Inr \<lparr>status = 200, json = Inr two_planets\<rparr>)
      = Fulfilled two_planets"
    by (simp add: fetch_then_def ok_def)
  have ok_m: "fetch_then sample_platform methodCounts_label (Inr \<lparr>status = 200, json = Inr by_transit\<rparr>)
      = Fulfilled by_transit"
    by (simp add: fetch_then_def ok_def)
  have ok_s: "fetch_then sample_platform stats_label (Inr \<lparr>status = 200, json = Inr two_stats\<rparr>)
      = Fulfilled two_stats"
    by (simp add: fetch_then_def ok_def)
  have bad_m: "fetch_then sample_platform methodCounts_label (Inr \<lparr>status = 500, json = Inr by_transit\<rparr>)
      = Rejected (Error (methodCounts_label @ ''500''))"
    by (simp add: fetch_then_def ok_def d)
  have order: "set settle_order = {PlanetsSlot, MethodCountsSlot, StatsSlot}"
    by (auto simp add: settle_order_def)
  have first: "first_rejection settle_order (Fulfilled two_planets)
      (Rejected (Error (methodCounts_label @ ''500''))) (Fulfilled two_stats)
      = Some (Error (methodCounts_label @ ''500''))"
    by (simp add: first_rejection_def rejection_of_def settle_order_def List.map_filter_simps)
  have name: "error_name (Error (methodCounts_label @ ''500'')) \<noteq> ''AbortError''"
    by (simp add: Error_def)
  have committed: "fetchAll sample_platform settle_order
      (Inr \<lparr>status = 200, json = Inr two_planets\<rparr>) (Inr \<lparr>status = 200, json = Inr by_transit\<rparr>)
      (Inr \<lparr>status = 200, json = Inr two_stats\<rparr>) idle
     = \<lparr>planets = Some two_planets, methodCounts = by_transit, stats = Some two_stats,
        loading = False, error = None\<rparr>"
    using fetchAll_joint [OF ok_p [symmetric] ok_m [symmetric] ok_s [symmetric],
        where a = two_planets and b = by_transit and c = two_stats and order = settle_order
          and st = idle] order
    by blast
  have discarded: "fetchAll sample_platform settle_order
      (Inr \<lparr>status = 200, json = Inr two_planets\<rparr>) (Inr \<lparr>status = 500, json = Inr by_transit\<rparr>)
      (Inr \<lparr>status = 200, json = Inr two_stats\<rparr>) idle
     = \<lparr>planets = None, methodCounts = [], stats = None, loading = False,
        error = Some (error_message (Error (methodCounts_label @ ''500'')))\<rparr>"
    using fetchAll_joint [OF ok_p [symmetric] bad_m [symmetric] ok_s [symmetric],
        where order = settle_order and e = "Error (methodCounts_label @ ''500'')" and st = idle]
      first name
    by blast
  show ?thesis
    using committed discarded by (simp add: Error_def methodCounts_label_def)
qed

subsection \<open>Bounds of the dashboard's pagination\<close>














subsection \<open>Numeric filters of Builder B\<close>

lemma getAll_Nil: "URLSearchParams_getAll k [] = []"
  by (simp add: URLSearchParams_getAll_def)

lemma getAll_set:
  "URLSearchParams_getAll k (URLSearchParams_set k' v ps) =
     (if k = k' then [v] else URLSearchParams_getAll k ps)"
proof (induction ps)
  case Nil
  then show ?case by (simp add: URLSearchParams_getAll_def)
next
  case (Cons q ps)
  have gone: "filter (\<lambda>q. fst q = k') (filter (\<lambda>q. fst q \<noteq> k') ps) = []"
    by (induction ps) simp_all
  have other: "k \<noteq> k' \<Longrightarrow>
      filter (\<lambda>q. fst q = k) (filter (\<lambda>q. fst q \<noteq> k') ps) = filter (\<lambda>q. fst q = k) ps"
    by (induction ps) auto
  show ?case
  proof (cases "fst q = k'")
    case True
    then show ?thesis
      using gone other by (auto simp add: URLSearchParams_getAll_def)
  next
    case False
    with Cons show ?thesis
      by (auto simp add: URLSearchParams_getAll_def)
  qed
qed

lemma getAll_set_numeric:
  "URLSearchParams_getAll k (set_numeric P source e ps) =
     (if k = snd e
      then (case numericOrUndefined P (field source (fst e)) of
              None \<Rightarrow> URLSearchParams_getAll k ps | Some v \<Rightarrow> [String_of P v])
      else URLSearchParams_getAll k ps)"
  by (simp add: set_numeric_def getAll_set split: option.splits)

lemma getAll_fold_other:
  "k \<notin> snd ` set es \<Longrightarrow>
     URLSearchParams_getAll k (fold (set_numeric P source) es ps) = URLSearchParams_getAll k ps"
proof (induction es arbitrary: ps)
  case Nil
  then show ?case by simp
next
  case (Cons e es)
  then have "k \<noteq> snd e" and "k \<notin> snd ` set es" by auto
  with Cons.IH show ?case by (simp add: getAll_set_numeric)
qed

lemma getAll_fold:
  assumes "distinct (map snd es)" and "(key, k) \<in> set es"
  shows "URLSearchParams_getAll k (fold (set_numeric P source) es ps) =
     (case numericOrUndefined P (field source key) of
        None \<Rightarrow> URLSearchParams_getAll k ps | Some v \<Rightarrow> [String_of P v])"
  using assms
proof (induction es arbitrary: ps)
  case Nil
  then show ?case by simp
next
  case (Cons e es)
  show ?case
  proof (cases "e = (key, k)")
    case True
    with Cons.prems have "k \<notin> snd ` set es" by auto
    with True show ?thesis
      by (simp add: getAll_fold_other getAll_set_numeric)
  next
    case False
    with Cons.prems have mem: "(key, k) \<in> set es" and d: "distinct (map snd es)" by auto
    from mem have "k \<in> snd ` set es" by force
    moreover from Cons.prems(1) have "snd e \<notin> snd ` set es" by simp
    ultimately have "k \<noteq> snd e" by blast
    with Cons.IH [OF d mem] show ?thesis
      by (simp add: getAll_set_numeric split: option.splits)
  qed
qed

lemma distinct_numericFilters: "distinct (map snd numericFilters)"
  by (simp add: numericFilters_def)

lemma numeric_param_fresh:
  assumes "(key, k) \<in> set numericFilters"
  shows "k \<noteq> ''limit''" "k \<noteq> ''offset''" "k \<noteq> ''name''" "k \<noteq> ''disc_method''"
    "k \<noteq> ''include_deleted''" "k \<noteq> ''sort_by''" "k \<noteq> ''sort_order''"
  using assms by (auto simp add: numericFilters_def)

lemma getAll_buildParams:
  assumes "(key, param) \<in> set numericFilters"
  shows "URLSearchParams_getAll param (buildParams P lmt source useOffset) =
     (case numericOrUndefined P (field source key) of None \<Rightarrow> [] | Some v \<Rightarrow> [String_of P v])"
proof -
  let ?named = "\<lambda>k v ps. if trim v \<noteq> [] then URLSearchParams_set k (trim v) ps else ps"
  let ?flagged = "\<lambda>ps. if include_deleted source
      then URLSearchParams_set ''include_deleted'' ''true'' ps else ps"
  let ?fixed = "URLSearchParams_set ''sort_order'' (sort_order source)
      (URLSearchParams_set ''sort_by'' (sort_by source)
        (?flagged (?named ''disc_method'' (disc_method source) (?named ''name'' (name source)
          (URLSearchParams_set ''offset'' (String_of P useOffset)
            (URLSearchParams_set ''limit'' (String_of P lmt) []))))))"
  have shape: "buildParams P lmt source useOffset = fold (set_numeric P source) numericFilters ?fixed"
    by (simp only: buildParams_def Let_def)
  have fixed: "URLSearchParams_getAll param ?fixed = []"
    using numeric_param_fresh [OF assms] by (simp add: URLSearchParams_getAll_def)
  show ?thesis
    by (simp only: shape getAll_fold [OF distinct_numericFilters assms] fixed)
qed

lemma strip_space: "strip_one whitespace (CHR '' '' # cs) = Some cs"
  by (simp add: whitespace_def)

lemma strip_all_spaces: "set s \<subseteq> {CHR '' ''} \<Longrightarrow> strip_all whitespace s = []"
proof (induction s)
  case Nil
  have "strip_one whitespace [] = None" by (simp add: whitespace_def)
  then show ?case by (simp add: strip_all.simps)
next
  case (Cons c s)
  then have c: "c = CHR '' ''" and s: "strip_all whitespace s = []" by auto
  have "strip_all whitespace (CHR '' '' # s) = strip_all whitespace s"
    by (subst strip_all.simps) (simp add: strip_space)
  with c s show ?case by simp
qed

lemma trim_spaces: "set s \<subseteq> {CHR '' ''} \<Longrightarrow> trim s = []"
proof -
  assume "set s \<subseteq> {CHR '' ''}"
  then have "trimStart s = []" by (simp add: trimStart_def strip_all_spaces)
  moreover have "strip_one (map rev whitespace) [] = None" by (simp add: whitespace_def)
  then have "trimEnd [] = []" by (simp add: trimEnd_def strip_all.simps)
  ultimately show ?thesis by (simp add: trim_def)
qed

text \<open>
  Claim C2. For each of the fourteen numeric filter fields and its wire parameter: when the
  text of the field fails to parse as a finite number (it is blank after trimming, or
  \<^verbatim>\<open>Number\<close> gives \<^verbatim>\<open>NaN\<close> or an infinity for it), the parameters \<^verbatim>\<open>buildParams\<close> returns do
  not contain the parameter at all; when it parses, they contain it once, with the
  rendering \<^verbatim>\<open>String(n)\<close> of the parsed number. In particular a field of spaces only is
  left out, whatever \<^verbatim>\<open>Number\<close> does.
\<close>

theorem buildParams_numeric:
  assumes "(key, param) \<in> set numericFilters"
  shows "URLSearchParams_getAll param (buildParams P lmt source useOffset) =
     (if trim (field source key) = [] \<or> \<not> isFinite (Number P (field source key)) then []
      else [String_of P (Number P (field source key))])
    \<and> (set (field source key) \<subseteq> {CHR '' ''} \<longrightarrow>
         URLSearchParams_getAll param (buildParams P lmt source useOffset) = [])"
  by (simp add: getAll_buildParams [OF assms] numericOrUndefined_def Let_def trim_spaces)

theorem buildParams_numeric_witness:
  "(Key_min_year, ''min_year'') \<in> set numericFilters
   \<and> URLSearchParams_getAll ''min_year'' (buildParams sample_platform (Fin 25) typed (Fin 0)) = []
   \<and> URLSearchParams_getAll ''max_year'' (buildParams sample_platform (Fin 25) typed (Fin 0)) = []
   \<and> URLSearchParams_getAll ''min_rade'' (buildParams sample_platform (Fin 25) typed (Fin 0)) = []
   \<and> URLSearchParams_getAll ''max_rade'' (buildParams sample_platform (Fin 25) typed (Fin 0)) = [''12'']"
proof -
  have h: "(Key_min_year, ''min_year'') \<in> set numericFilters"
    "(Key_max_year, ''max_year'') \<in> set numericFilters"
    "(Key_min_rade, ''min_rade'') \<in> set numericFilters"
    "(Key_max_rade, ''max_rade'') \<in> set numericFilters"
    by (simp_all add: numericFilters_def)
  have spaces: "set (field typed Key_min_year) \<subseteq> {CHR '' ''}"
    by (simp add: typed_def)
  have blank: "trim (field typed Key_max_year) = []"
    by code_simp
  have letters: "trim (field typed Key_min_rade) \<noteq> []"
    "\<not> isFinite (Number sample_platform (field typed Key_min_rade))"
    by code_simp+
  have digits: "trim (field typed Key_max_rade) \<noteq> []"
    "isFinite (Number sample_platform (field typed Key_max_rade))"
    "String_of sample_platform (Number sample_platform (field typed Key_max_rade)) = ''12''"
    by code_simp+
  have a: "URLSearchParams_getAll ''min_year'' (buildParams sample_platform (Fin 25) typed (Fin 0)) = []"
    using buildParams_numeric [OF h(1), of sample_platform "Fin 25" typed "Fin 0"] spaces
    by blast
  have b: "URLSearchParams_getAll ''max_year'' (buildParams sample_platform (Fin 25) typed (Fin 0)) = []"
    using buildParams_numeric [OF h(2), of sample_platform "Fin 25" typed "Fin 0"] blank
    by simp
  have c: "URLSearchParams_getAll ''min_rade'' (buildParams sample_platform (Fin 25) typed (Fin 0)) = []"
    using buildParams_numeric [OF h(3), of sample_platform "Fin 25" typed "Fin 0"] letters
    by simp
  have d: "URLSearchParams_getAll ''max_rade'' (buildParams sample_platform (Fin 25) typed (Fin 0))
      = [''12'']"
    using buildParams_numeric [OF h(4), of sample_platform "Fin 25" typed "Fin 0"] digits
    by simp
  from h(1) a b c d show ?thesis by blast
qed

subsection \<open>Parameters of the URL\<close>

lemma set_appends: "k \<notin> fst ` set ps \<Longrightarrow> URLSearchParams_set k v ps = ps @ [(k, v)]"
  by (induction ps) auto

lemma fold_appends:
  assumes "distinct (map fst es)" and "fst ` set ps \<inter> fst ` set es = {}"
  shows "fold (\<lambda>(key, value). URLSearchParams_set key (f value)) es ps
       = ps @ map (\<lambda>e. (fst e, f (snd e))) es"
  using assms
proof (induction es arbitrary: ps)
  case Nil
  then show ?case by simp
next
  case (Cons e es)
  obtain k v where e: "e = (k, v)" by (cases e)
  from Cons.prems e have fresh: "k \<notin> fst ` set ps" by auto
  from Cons.prems e have "k \<notin> fst ` set es" by auto
  with Cons.prems have disjoint: "fst ` set (ps @ [(k, f v)]) \<inter> fst ` set es = {}" 
    by auto
  from Cons.prems have "distinct (map fst es)" by simp
  from Cons.IH [OF this disjoint] show ?case
    using e fresh by (simp add: set_appends)
qed

lemma String_of_20: "String_of P (Fin 20) = ''20''"
  by (simp add: String_of_def decimal.simps)

text \<open>
  Claim C1. Let \<^verbatim>\<open>new URL(path, API_BASE_URL)\<close> give the URL \<open>u\<close>. For the entries of any
  parameter object (their names are distinct) of which none is named like a parameter of
  the query of \<open>path\<close> itself, \<^verbatim>\<open>buildUrl\<close> returns \<open>u\<close> with exactly the entries added
  whose value is neither \<^verbatim>\<open>undefined\<close> nor the empty string, each with the string of its
  value, in the order of the object. Consequently, for a filter state of Builder A whose
  four filter fields are blank and a path without a query, the query of the URL is
  \<^verbatim>\<open>limit\<close> (20) and \<^verbatim>\<open>page\<close>, followed by \<^verbatim>\<open>order_by\<close> and \<^verbatim>\<open>order_dir\<close> where these
  are not empty: no filter parameter is in it.
\<close>

theorem buildUrl_params:
  assumes "new_URL P path (API_BASE_URL P) = Inr u"
  shows "(distinct (map fst entries) \<and> fst ` set (searchParams u) \<inter> fst ` set entries = {} \<longrightarrow>
           buildUrl P path (Some entries) =
             Inr (u\<lparr>searchParams := searchParams u @
                    map (\<lambda>e. (fst e, String_value P (snd e)))
                      (filter (\<lambda>e. snd e \<noteq> ParamUndefined \<and> snd e \<noteq> ParamString []) entries)\<rparr>))
       \<and> (search fs = [] \<and> filter_method fs = [] \<and> minYear fs = [] \<and> maxYear fs = []
            \<and> searchParams u = [] \<longrightarrow>
           buildUrl P path (Some (mapFiltersToParams fs pg)) =
             Inr (u\<lparr>searchParams :=
                    [(''limit'', ''20''), (''page'', String_of P pg)]
                    @ (if orderBy fs = [] then [] else [(''order_by'', orderBy fs)])
                    @ (if orderDir fs = [] then [] else [(''order_dir'', orderDir fs)])\<rparr>))"
proof (intro conjI impI)
  assume h: "distinct (map fst entries) \<and> fst ` set (searchParams u) \<inter> fst ` set entries = {}"
  then have "distinct (map fst (filter kept entries))"
    by (simp add: distinct_map_filter)
  moreover from h have "fst ` set (searchParams u) \<inter> fst ` set (filter kept entries) = {}"
    by auto
  ultimately have "fold (\<lambda>(key, value). URLSearchParams_set key (String_value P value))
      (filter kept entries) (searchParams u)
      = searchParams u @ map (\<lambda>e. (fst e, String_value P (snd e))) (filter kept entries)"
    by (rule fold_appends)
  moreover have "kept = (\<lambda>e. snd e \<noteq> ParamUndefined \<and> snd e \<noteq> ParamString [])"
    by (simp add: kept_def fun_eq_iff)
  ultimately show "buildUrl P path (Some entries) =
      Inr (u\<lparr>searchParams := searchParams u @
             map (\<lambda>e. (fst e, String_value P (snd e)))
               (filter (\<lambda>e. snd e \<noteq> ParamUndefined \<and> snd e \<noteq> ParamString []) entries)\<rparr>)"
    using assms by (simp add: buildUrl_def)
next
  assume "search fs = [] \<and> filter_method fs = [] \<and> minYear fs = [] \<and> maxYear fs = []
            \<and> searchParams u = []"
  then show "buildUrl P path (Some (mapFiltersToParams fs pg)) =
      Inr (u\<lparr>searchParams :=
             [(''limit'', ''20''), (''page'', String_of P pg)]
             @ (if orderBy fs = [] then [] else [(''order_by'', orderBy fs)])
             @ (if orderDir fs = [] then [] else [(''order_dir'', orderDir fs)])\<rparr>)"
    using assms
    by (simp add: buildUrl_def mapFiltersToParams_def kept_def PAGE_SIZE_def String_of_20)
qed

theorem buildUrl_params_witness:
  "buildUrl sample_platform ''/vis/discovery'' (Some chart_params) =
     Inr \<lparr>href = ''http://localhost:8000/vis/discovery'',
          searchParams = [(''chart'', ''hist''), (''year'', ''0'')]\<rparr>
   \<and> buildUrl sample_platform ''/planets'' (Some (mapFiltersToParams defaultState (Fin 1))) =
     Inr \<lparr>href = ''http://localhost:8000/planets'',
          searchParams = [(''limit'', ''20''), (''page'', ''1''),
            (''order_by'', ''discovery_year''), (''order_dir'', ''desc'')]\<rparr>"
proof -
  let ?vis = "\<lparr>href = ''http://localhost:8000/vis/discovery'', searchParams = []\<rparr>"
  let ?planets = "\<lparr>href = ''http://localhost:8000/planets'', searchParams = []\<rparr>"
  have base: "API_BASE_URL sample_platform = ''http://localhost:8000''"
    by (simp add: API_BASE_URL_def sample_platform_def)
  have vis: "new_URL sample_platform ''/vis/discovery'' (API_BASE_URL sample_platform) = Inr ?vis"
    by (simp add: base) (simp add: sample_platform_def)
  have planets: "new_URL sample_platform ''/planets'' (API_BASE_URL sample_platform) = Inr ?planets"
    by (simp add: base) (simp add: sample_platform_def)
  have entries: "distinct (map fst chart_params)
      \<and> fst ` set (searchParams ?vis) \<inter> fst ` set chart_params = {}"
    by (simp add: chart_params_def)
  have blank: "search defaultState = [] \<and> filter_method defaultState = []
      \<and> minYear defaultState = [] \<and> maxYear defaultState = [] \<and> searchParams ?planets = []"
    by (simp add: defaultState_def)
  have digits: "String_of sample_platform (Fin 0) = ''0''" "String_of sample_platform (Fin 1) = ''1''"
    by (simp_all add: String_of_def decimal.simps)
  have a: "buildUrl sample_platform ''/vis/discovery'' (Some chart_params) =
      Inr (?vis\<lparr>searchParams := searchParams ?vis @
             map (\<lambda>e. (fst e, String_value sample_platform (snd e)))
               (filter (\<lambda>e. snd e \<noteq> ParamUndefined \<and> snd e \<noteq> ParamString []) chart_params)\<rparr>)"
    using buildUrl_params [OF vis, of chart_params] entries by blast
  have b: "buildUrl sample_platform ''/planets'' (Some (mapFiltersToParams defaultState (Fin 1))) =
      Inr (?planets\<lparr>searchParams :=
             [(''limit'', ''20''), (''page'', String_of sample_platform (Fin 1))]
             @ (if orderBy defaultState = [] then [] else [(''order_by'', orderBy defaultState)])
             @ (if orderDir defaultState = [] then [] else [(''order_dir'', orderDir defaultState)])\<rparr>)"
    using buildUrl_params [OF planets, of _ defaultState "Fin 1"] blank by blast
  show ?thesis
    using a b by (simp add: chart_params_def defaultState_def digits)
qed

subsection \<open>Page reset of Builder A\<close>

text \<open>
  A change of a filter stores a new filter object, and the effect of the render that
  follows sets the page to 1.
\<close>

lemma usePlanetList_page:
  "page (usePlanetList st) = (if effect_dep st = Some (filters_id st) then page st else Fin 1)"
  by (simp add: usePlanetList_def Let_def)

lemma usePlanetList_effect_dep: "effect_dep (usePlanetList st) = Some (filters_id st)"
  by (simp add: usePlanetList_def Let_def)

lemma usePlanetList_filters_id: "filters_id (usePlanetList st) = filters_id st"
  by (simp add: usePlanetList_def Let_def)

lemma updateFilter_resets_page:
  assumes "effect_dep st \<noteq> Some (fresh st)"
  shows "page (updateFilter key v st) = Fin 1"
  using assms
  by (simp add: updateFilter_def rerender_def Let_def usePlanetList_page usePlanetList_effect_dep
      usePlanetList_filters_id)

text \<open>
  Claim C4 says that the next request after a change of a filter is always issued for
  page 1. On page 3, a change of the search text does set the page to 1, but the render
  that sees the new filters still reads page 3 and its query asks for page 3 of the new
  filters; the request for page 1 is the second one after the change.
\<close>

theorem stale_page_request:
  "page third_page = Fin 3
   \<and> page (updateFilter Key_search ''x'' third_page) = Fin 1
   \<and> drop (length (issued third_page)) (issued (updateFilter Key_search ''x'' third_page)) =
       [mapFiltersToParams (defaultState\<lparr>search := ''x''\<rparr>) (Fin 3),
        mapFiltersToParams (defaultState\<lparr>search := ''x''\<rparr>) (Fin 1)]"
  by code_simp

end
